theory Spec2Isabelle
  imports Main "HOL-Library.Sublist" "HOL-Library.Word"
begin

section \<open>JavaScript values and truthiness\<close>

text \<open>
  \<open>uploadToAzure(buffer, fileName)\<close> is untyped JavaScript: a caller may pass any value,
  \<open>undefined\<close> included. The values the checks of the function can tell apart are
  modelled here. A \<open>Buffer\<close> (or any typed array) is an object.
\<close>

datatype jsval =
    JUndefined
  | JNull
  | JBool bool
  | JNum int
  | JNaN
  | JStr string
  | JBuffer "8 word list"

text \<open>The language's \<open>ToBoolean\<close>, which \<open>!x\<close> applies: an object is always truthy.\<close>

fun truthy :: "jsval \<Rightarrow> bool" where
  "truthy JUndefined = False"
| "truthy JNull = False"
| "truthy (JBool b) = b"
| "truthy (JNum n) = (n \<noteq> 0)"
| "truthy JNaN = False"
| "truthy (JStr s) = (s \<noteq> [])"
| "truthy (JBuffer bs) = True"

section \<open>The process environment\<close>

type_synonym environment = "string \<rightharpoonup> string"

text \<open>\<open>process.env.NAME\<close>: the string when the variable is set, \<open>undefined\<close> otherwise.\<close>

definition env_get :: "environment \<Rightarrow> string \<Rightarrow> jsval" where
  "env_get env name = (case env name of None \<Rightarrow> JUndefined | Some v \<Rightarrow> JStr v)"

definition AZURE_STORAGE_CONNECTION :: string where
  "AZURE_STORAGE_CONNECTION = ''AZURE_STORAGE_CONNECTION''"

section \<open>Thrown values\<close>

text \<open>
  A rejected call carries the thrown value. An error object records where it was created
  (its \<open>stack\<close>); the model keeps the source line. A failure of the storage SDK is the
  SDK's own value \<open>e\<close>, carried as it is.
\<close>

datatype 'e thrown =
    ErrorObject string string nat
  | ReferenceError string nat
  | TypeError string nat
  | FromSdk 'e

fun message :: "'e thrown \<Rightarrow> string option" where
  "message (ErrorObject ctor msg line) = Some msg"
| "message (ReferenceError msg line) = Some msg"
| "message (TypeError msg line) = Some msg"
| "message (FromSdk e) = None"

fun thrown_at :: "'e thrown \<Rightarrow> nat option" where
  "thrown_at (ErrorObject ctor msg line) = Some line"
| "thrown_at (ReferenceError msg line) = Some line"
| "thrown_at (TypeError msg line) = Some line"
| "thrown_at (FromSdk e) = None"

text \<open>
  Identifiers are case sensitive. Inside \<open>uploadToAzure\<close> the names in scope are the
  parameters, the \<open>const\<close> locals, the three module bindings and the globals of the
  host, of which the error constructors and \<open>process\<close> matter here. The module is an
  ES module (strict code): a name that resolves nowhere raises a \<open>ReferenceError\<close>.
\<close>

datatype binding = ErrorConstructor | OtherValue

definition scope :: "string \<rightharpoonup> binding" where
  "scope = map_of
     [(''buffer'', OtherValue), (''fileName'', OtherValue),
      (''blobServiceClient'', OtherValue), (''containerClient'', OtherValue),
      (''blockBlobClient'', OtherValue),
      (''BlobServiceClient'', OtherValue), (''CONTAINER_NAME'', OtherValue),
      (''uploadToAzure'', OtherValue), (''process'', OtherValue),
      (''Error'', ErrorConstructor), (''EvalError'', ErrorConstructor),
      (''RangeError'', ErrorConstructor), (''ReferenceError'', ErrorConstructor),
      (''SyntaxError'', ErrorConstructor), (''TypeError'', ErrorConstructor),
      (''URIError'', ErrorConstructor), (''AggregateError'', ErrorConstructor)]"

text \<open>
  \<open>throw new ident(msg)\<close> at a source line: the value that ends up thrown. Looking the
  identifier up comes first, so an unbound one throws before any object is built. The
  module applies \<open>new\<close> to no name bound to anything but an error constructor; that
  case is a \<open>TypeError\<close> here.
\<close>

definition throw_new :: "string \<Rightarrow> string \<Rightarrow> nat \<Rightarrow> 'e thrown" where
  "throw_new ident msg line =
     (case scope ident of
        None \<Rightarrow> ReferenceError (ident @ '' is not defined'') line
      | Some ErrorConstructor \<Rightarrow> ErrorObject ident msg line
      | Some OtherValue \<Rightarrow> TypeError (ident @ '' is not a constructor'') line)"

section \<open>The storage SDK\<close>

text \<open>
  \<open>@azure/storage-blob\<close> is a dependency, not part of the repository, so it is a
  parameter of the model: \<open>'e\<close> are the errors it throws, \<open>'sc\<close>, \<open>'cc\<close> and \<open>'bc\<close> its
  service, container and block blob clients, \<open>'w\<close> the state of the storage service.
  Building a client is local and may only fail for the service client (a malformed
  connection string); \<open>createIfNotExists\<close> and \<open>uploadData\<close> are the two network calls,
  which may fail and may change the service. \<open>url\<close> is a read-only property of a client.
\<close>

record container_create_options =
  access :: string

record ('e, 'sc, 'cc, 'bc, 'w) sdk =
  fromConnectionString :: "jsval \<Rightarrow> 'e + 'sc"
  getContainerClient :: "'sc \<Rightarrow> string \<Rightarrow> 'cc"
  createIfNotExists :: "'cc \<Rightarrow> container_create_options \<Rightarrow> 'w \<Rightarrow> ('e + unit) \<times> 'w"
  getBlockBlobClient :: "'cc \<Rightarrow> jsval \<Rightarrow> 'bc"
  uploadData :: "'bc \<Rightarrow> jsval \<Rightarrow> 'w \<Rightarrow> ('e + unit) \<times> 'w"
  url :: "'bc \<Rightarrow> string"

section \<open>Observable effects\<close>

text \<open>
  Every read of the environment and every call into the SDK is appended to a trace, in
  the order the function performs them; a call is logged when it is attempted, whether
  or not it succeeds.
\<close>

datatype ('sc, 'cc, 'bc) event =
    EnvRead string
  | FromConnectionString jsval
  | GetContainerClient 'sc string
  | CreateIfNotExists 'cc container_create_options
  | GetBlockBlobClient 'cc jsval
  | UploadData 'bc jsval

record ('sc, 'cc, 'bc, 'w) world =
  trace :: "('sc, 'cc, 'bc) event list"
  service :: 'w

definition log :: "('sc, 'cc, 'bc) event \<Rightarrow> ('sc, 'cc, 'bc, 'w) world \<Rightarrow> ('sc, 'cc, 'bc, 'w) world" where
  "log ev s = s\<lparr>trace := trace s @ [ev]\<rparr>"

definition read_env ::
  "environment \<Rightarrow> string \<Rightarrow> ('sc, 'cc, 'bc, 'w) world \<Rightarrow> jsval \<times> ('sc, 'cc, 'bc, 'w) world" where
  "read_env env name s = (env_get env name, log (EnvRead name) s)"

definition call_fromConnectionString ::
  "('e, 'sc, 'cc, 'bc, 'w) sdk \<Rightarrow> jsval \<Rightarrow> ('sc, 'cc, 'bc, 'w) world
     \<Rightarrow> ('e + 'sc) \<times> ('sc, 'cc, 'bc, 'w) world" where
  "call_fromConnectionString k cs s = (fromConnectionString k cs, log (FromConnectionString cs) s)"

definition call_getContainerClient ::
  "('e, 'sc, 'cc, 'bc, 'w) sdk \<Rightarrow> 'sc \<Rightarrow> string \<Rightarrow> ('sc, 'cc, 'bc, 'w) world
     \<Rightarrow> 'cc \<times> ('sc, 'cc, 'bc, 'w) world" where
  "call_getContainerClient k sc name s = (getContainerClient k sc name, log (GetContainerClient sc name) s)"

definition call_createIfNotExists ::
  "('e, 'sc, 'cc, 'bc, 'w) sdk \<Rightarrow> 'cc \<Rightarrow> container_create_options \<Rightarrow> ('sc, 'cc, 'bc, 'w) world
     \<Rightarrow> ('e + unit) \<times> ('sc, 'cc, 'bc, 'w) world" where
  "call_createIfNotExists k cc opts s =
     (case createIfNotExists k cc opts (service s) of
        (r, w) \<Rightarrow> (r, (log (CreateIfNotExists cc opts) s)\<lparr>service := w\<rparr>))"

definition call_getBlockBlobClient ::
  "('e, 'sc, 'cc, 'bc, 'w) sdk \<Rightarrow> 'cc \<Rightarrow> jsval \<Rightarrow> ('sc, 'cc, 'bc, 'w) world
     \<Rightarrow> 'bc \<times> ('sc, 'cc, 'bc, 'w) world" where
  "call_getBlockBlobClient k cc name s = (getBlockBlobClient k cc name, log (GetBlockBlobClient cc name) s)"

definition call_uploadData ::
  "('e, 'sc, 'cc, 'bc, 'w) sdk \<Rightarrow> 'bc \<Rightarrow> jsval \<Rightarrow> ('sc, 'cc, 'bc, 'w) world
     \<Rightarrow> ('e + unit) \<times> ('sc, 'cc, 'bc, 'w) world" where
  "call_uploadData k bc data s =
     (case uploadData k bc data (service s) of
        (r, w) \<Rightarrow> (r, (log (UploadData bc data) s)\<lparr>service := w\<rparr>))"

section \<open>The upload function\<close>

definition CONTAINER_NAME :: string where
  "CONTAINER_NAME = ''snapmap-blob''"

text \<open>
  The function is \<open>async\<close>: a throw rejects the returned promise (\<open>Inl\<close>), the
  \<open>return\<close> fulfils it (\<open>Inr\<close>). Each \<open>await\<close> lets the call go on only after the
  awaited SDK call has settled, and rethrows its failure. The two \<open>throw\<close> statements
  are on lines 7 and 10 of the source, and both name the constructor \<open>error\<close>.
\<close>

definition uploadToAzure ::
  "('e, 'sc, 'cc, 'bc, 'w) sdk \<Rightarrow> environment \<Rightarrow> jsval \<Rightarrow> jsval \<Rightarrow> ('sc, 'cc, 'bc, 'w) world
     \<Rightarrow> ('e thrown + string) \<times> ('sc, 'cc, 'bc, 'w) world" where
  "uploadToAzure k env buffer fileName s0 =
     (if \<not> truthy buffer \<or> \<not> truthy fileName then
        (Inl (throw_new ''error'' ''Buffer and Filename are required'' 7), s0)
      else case read_env env AZURE_STORAGE_CONNECTION s0 of (c, s1) \<Rightarrow>
        if \<not> truthy c then
          (Inl (throw_new ''error'' ''Connection string is required'' 10), s1)
        else case read_env env AZURE_STORAGE_CONNECTION s1 of (cs, s2) \<Rightarrow>
          (case call_fromConnectionString k cs s2 of
             (Inl e, s3) \<Rightarrow> (Inl (FromSdk e), s3)
           | (Inr blobServiceClient, s3) \<Rightarrow>
               (case call_getContainerClient k blobServiceClient CONTAINER_NAME s3 of
                  (containerClient, s4) \<Rightarrow>
                    (case call_createIfNotExists k containerClient \<lparr>access = ''blob''\<rparr> s4 of
                       (Inl e, s5) \<Rightarrow> (Inl (FromSdk e), s5)
                     | (Inr u, s5) \<Rightarrow>
                         (case call_getBlockBlobClient k containerClient fileName s5 of
                            (blockBlobClient, s6) \<Rightarrow>
                              (case call_uploadData k blockBlobClient buffer s6 of
                                 (Inl e, s7) \<Rightarrow> (Inl (FromSdk e), s7)
                               | (Inr u', s7) \<Rightarrow> (Inr (url k blockBlobClient), s7)))))))"


section \<open>Reading the trace\<close>

text \<open>
  What one invocation adds to the trace, the SDK operations among those events, and how
  often an operation was attempted.
\<close>

definition new_events :: "('sc, 'cc, 'bc, 'w) world \<Rightarrow> ('sc, 'cc, 'bc, 'w) world \<Rightarrow> ('sc, 'cc, 'bc) event list" where
  "new_events s s' = drop (length (trace s)) (trace s')"

datatype sdk_op =
    OpFromConnectionString
  | OpGetContainerClient
  | OpCreateIfNotExists
  | OpGetBlockBlobClient
  | OpUploadData

fun op_of :: "('sc, 'cc, 'bc) event \<Rightarrow> sdk_op option" where
  "op_of (EnvRead name) = None"
| "op_of (FromConnectionString cs) = Some OpFromConnectionString"
| "op_of (GetContainerClient sc name) = Some OpGetContainerClient"
| "op_of (CreateIfNotExists cc opts) = Some OpCreateIfNotExists"
| "op_of (GetBlockBlobClient cc name) = Some OpGetBlockBlobClient"
| "op_of (UploadData bc d) = Some OpUploadData"

definition ops :: "('sc, 'cc, 'bc) event list \<Rightarrow> sdk_op list" where
  "ops evs = List.map_filter op_of evs"

definition attempts :: "sdk_op \<Rightarrow> ('sc, 'cc, 'bc) event list \<Rightarrow> nat" where
  "attempts p evs = count_list (ops evs) p"

text \<open>The order in which the source calls the SDK (its comments number the steps 1 to 5).\<close>

definition sdk_order :: "sdk_op list" where
  "sdk_order = [OpFromConnectionString, OpGetContainerClient, OpCreateIfNotExists,
     OpGetBlockBlobClient, OpUploadData]"


section \<open>The contract of the storage service\<close>

text \<open>
  Modelled from the spec: the storage SDK and the service behind it are not part of the
  repository, so what the specification says of them is stated as predicates on the
  SDK parameter. \<open>always_succeeds\<close> is "a successful underlying storage service":
  neither call to the service ever fails. Whether the SDK accepts a connection string is
  not part of it; a theorem that needs the configured string accepted says so itself.
\<close>

definition always_succeeds :: "('e, 'sc, 'cc, 'bc, 'w) sdk \<Rightarrow> bool" where
  "always_succeeds k \<longleftrightarrow>
     (\<forall>cc opts w. fst (createIfNotExists k cc opts w) = Inr ()) \<and>
     (\<forall>bc d w. fst (uploadData k bc d w) = Inr ())"

text \<open>
  Modelled from the spec: the URL of a blob is the SDK's; the specification says it is
  "a non-empty URL containing the configured container name and the supplied file name".
\<close>

definition url_names_container_and_blob :: "('e, 'sc, 'cc, 'bc, 'w) sdk \<Rightarrow> bool" where
  "url_names_container_and_blob k \<longleftrightarrow>
     (\<forall>sc c n. url k (getBlockBlobClient k (getContainerClient k sc c) (JStr n)) \<noteq> [] \<and>
        sublist c (url k (getBlockBlobClient k (getContainerClient k sc c) (JStr n))) \<and>
        sublist n (url k (getBlockBlobClient k (getContainerClient k sc c) (JStr n))))"

text \<open>
  Modelled from the spec: "overwriting any existing object of the same name (overwrite
  semantics are delegated to the SDK's default behavior)". \<open>retrieve u w\<close> is the content
  the service in state \<open>w\<close> serves at the URL \<open>u\<close>; after a successful upload through a
  blob client it is the uploaded data.
\<close>

definition overwrites :: "('e, 'sc, 'cc, 'bc, 'w) sdk \<Rightarrow> (string \<Rightarrow> 'w \<Rightarrow> jsval option) \<Rightarrow> bool" where
  "overwrites k retrieve \<longleftrightarrow>
     (\<forall>bc d w w'. uploadData k bc d w = (Inr (), w') \<longrightarrow> retrieve (url k bc) w' = Some d)"

section \<open>An in-memory storage service\<close>

text \<open>
  A concrete SDK to run the function on: the service state is the list of containers
  created and the blobs stored by URL. Either network call can be made to fail with a
  given error.
\<close>

type_synonym mem_service = "string list \<times> (string \<rightharpoonup> jsval)"

fun blob_name :: "jsval \<Rightarrow> string" where
  "blob_name (JStr n) = n"
| "blob_name v = []"

fun mem_url :: "(string \<times> string) \<times> jsval \<Rightarrow> string" where
  "mem_url ((account, container), name) =
     ''https://'' @ account @ ''/'' @ container @ ''/'' @ blob_name name"

definition mem_sdk ::
  "string option \<Rightarrow> string option
     \<Rightarrow> (string, string, string \<times> string, (string \<times> string) \<times> jsval, mem_service) sdk" where
  "mem_sdk create_error upload_error =
     \<lparr>fromConnectionString = (\<lambda>cs. case cs of JStr a \<Rightarrow> Inr a | _ \<Rightarrow> Inl ''Invalid connection string''),
      getContainerClient = (\<lambda>sc name. (sc, name)),
      createIfNotExists = (\<lambda>cc opts w.
         case create_error of
           Some e \<Rightarrow> (Inl e, w)
         | None \<Rightarrow> (Inr (), (if snd cc \<in> set (fst w) then fst w else snd cc # fst w, snd w))),
      getBlockBlobClient = (\<lambda>cc name. (cc, name)),
      uploadData = (\<lambda>bc d w.
         case upload_error of
           Some e \<Rightarrow> (Inl e, w)
         | None \<Rightarrow> (Inr (), (fst w, (snd w)(mem_url bc \<mapsto> d)))),
      url = mem_url\<rparr>"

definition mem_retrieve :: "string \<Rightarrow> mem_service \<Rightarrow> jsval option" where
  "mem_retrieve u w = snd w u"

definition mem_env :: environment where
  "mem_env = [AZURE_STORAGE_CONNECTION \<mapsto> ''acct'']"

definition mem_start :: "(string, string \<times> string, (string \<times> string) \<times> jsval, mem_service) world" where
  "mem_start = \<lparr>trace = [], service = ([], Map.empty)\<rparr>"

section \<open>The runs of the upload function\<close>

text \<open>
  The function has six ways to end: the two precondition throws, a failure of each of
  the three fallible SDK calls, and the return. Each lemma gives the result and the
  final world of one of them.
\<close>

lemmas call_defs = read_env_def call_fromConnectionString_def call_getContainerClient_def
  call_createIfNotExists_def call_getBlockBlobClient_def call_uploadData_def log_def

lemma throw_new_error: "throw_new ''error'' msg line = ReferenceError ''error is not defined'' line"
  by (simp add: throw_new_def scope_def)

lemma run_missing_argument:
  "\<not> truthy buffer \<or> \<not> truthy fileName \<Longrightarrow>
   uploadToAzure k env buffer fileName s =
     (Inl (throw_new ''error'' ''Buffer and Filename are required'' 7), s)"
  by (simp add: uploadToAzure_def)

lemma run_missing_connection:
  "truthy buffer \<Longrightarrow> truthy fileName \<Longrightarrow> \<not> truthy (env_get env AZURE_STORAGE_CONNECTION) \<Longrightarrow>
   uploadToAzure k env buffer fileName s =
     (Inl (throw_new ''error'' ''Connection string is required'' 10),
      s\<lparr>trace := trace s @ [EnvRead AZURE_STORAGE_CONNECTION]\<rparr>)"
  by (simp add: uploadToAzure_def call_defs)

lemma run_client_failure:
  "truthy buffer \<Longrightarrow> truthy fileName \<Longrightarrow> truthy (env_get env AZURE_STORAGE_CONNECTION) \<Longrightarrow>
   fromConnectionString k (env_get env AZURE_STORAGE_CONNECTION) = Inl e \<Longrightarrow>
   uploadToAzure k env buffer fileName s =
     (Inl (FromSdk e),
      s\<lparr>trace := trace s @ [EnvRead AZURE_STORAGE_CONNECTION, EnvRead AZURE_STORAGE_CONNECTION,
            FromConnectionString (env_get env AZURE_STORAGE_CONNECTION)]\<rparr>)"
  by (simp add: uploadToAzure_def call_defs)

lemma run_create_failure:
  "truthy buffer \<Longrightarrow> truthy fileName \<Longrightarrow> truthy (env_get env AZURE_STORAGE_CONNECTION) \<Longrightarrow>
   fromConnectionString k (env_get env AZURE_STORAGE_CONNECTION) = Inr sc \<Longrightarrow>
   createIfNotExists k (getContainerClient k sc CONTAINER_NAME) \<lparr>access = ''blob''\<rparr> (service s) = (Inl e, w1) \<Longrightarrow>
   uploadToAzure k env buffer fileName s =
     (Inl (FromSdk e),
      s\<lparr>trace := trace s @ [EnvRead AZURE_STORAGE_CONNECTION, EnvRead AZURE_STORAGE_CONNECTION,
            FromConnectionString (env_get env AZURE_STORAGE_CONNECTION),
            GetContainerClient sc CONTAINER_NAME,
            CreateIfNotExists (getContainerClient k sc CONTAINER_NAME) \<lparr>access = ''blob''\<rparr>],
         service := w1\<rparr>)"
  by (simp add: uploadToAzure_def call_defs)

lemma run_upload_failure:
  "truthy buffer \<Longrightarrow> truthy fileName \<Longrightarrow> truthy (env_get env AZURE_STORAGE_CONNECTION) \<Longrightarrow>
   fromConnectionString k (env_get env AZURE_STORAGE_CONNECTION) = Inr sc \<Longrightarrow>
   createIfNotExists k (getContainerClient k sc CONTAINER_NAME) \<lparr>access = ''blob''\<rparr> (service s) = (Inr u, w1) \<Longrightarrow>
   uploadData k (getBlockBlobClient k (getContainerClient k sc CONTAINER_NAME) fileName) buffer w1 = (Inl e, w2) \<Longrightarrow>
   uploadToAzure k env buffer fileName s =
     (Inl (FromSdk e),
      s\<lparr>trace := trace s @ [EnvRead AZURE_STORAGE_CONNECTION, EnvRead AZURE_STORAGE_CONNECTION,
            FromConnectionString (env_get env AZURE_STORAGE_CONNECTION),
            GetContainerClient sc CONTAINER_NAME,
            CreateIfNotExists (getContainerClient k sc CONTAINER_NAME) \<lparr>access = ''blob''\<rparr>,
            GetBlockBlobClient (getContainerClient k sc CONTAINER_NAME) fileName,
            UploadData (getBlockBlobClient k (getContainerClient k sc CONTAINER_NAME) fileName) buffer],
         service := w2\<rparr>)"
  by (simp add: uploadToAzure_def call_defs)

lemma run_success:
  "truthy buffer \<Longrightarrow> truthy fileName \<Longrightarrow> truthy (env_get env AZURE_STORAGE_CONNECTION) \<Longrightarrow>
   fromConnectionString k (env_get env AZURE_STORAGE_CONNECTION) = Inr sc \<Longrightarrow>
   createIfNotExists k (getContainerClient k sc CONTAINER_NAME) \<lparr>access = ''blob''\<rparr> (service s) = (Inr u, w1) \<Longrightarrow>
   uploadData k (getBlockBlobClient k (getContainerClient k sc CONTAINER_NAME) fileName) buffer w1 = (Inr u', w2) \<Longrightarrow>
   uploadToAzure k env buffer fileName s =
     (Inr (url k (getBlockBlobClient k (getContainerClient k sc CONTAINER_NAME) fileName)),
      s\<lparr>trace := trace s @ [EnvRead AZURE_STORAGE_CONNECTION, EnvRead AZURE_STORAGE_CONNECTION,
            FromConnectionString (env_get env AZURE_STORAGE_CONNECTION),
            GetContainerClient sc CONTAINER_NAME,
            CreateIfNotExists (getContainerClient k sc CONTAINER_NAME) \<lparr>access = ''blob''\<rparr>,
            GetBlockBlobClient (getContainerClient k sc CONTAINER_NAME) fileName,
            UploadData (getBlockBlobClient k (getContainerClient k sc CONTAINER_NAME) fileName) buffer],
         service := w2\<rparr>)"
  by (simp add: uploadToAzure_def call_defs)

lemma new_events_append [simp]:
  "new_events s (s\<lparr>trace := trace s @ evs\<rparr>) = evs"
  "new_events s (s\<lparr>trace := trace s @ evs, service := w\<rparr>) = evs"
  "new_events s s = []"
  by (simp_all add: new_events_def)

text \<open>Every invocation is one of the six runs.\<close>

lemma run_cases:
  fixes k :: "('e, 'sc, 'cc, 'bc, 'w) sdk" and env :: environment
    and buffer fileName :: jsval and s :: "('sc, 'cc, 'bc, 'w) world"
  obtains
    (MissingArgument) "\<not> truthy buffer \<or> \<not> truthy fileName"
  | (MissingConnection) "truthy buffer" "truthy fileName"
      "\<not> truthy (env_get env AZURE_STORAGE_CONNECTION)"
  | (ClientFailure) e where "truthy buffer" "truthy fileName"
      "truthy (env_get env AZURE_STORAGE_CONNECTION)"
      "fromConnectionString k (env_get env AZURE_STORAGE_CONNECTION) = Inl e"
  | (CreateFailure) sc e w1 where "truthy buffer" "truthy fileName"
      "truthy (env_get env AZURE_STORAGE_CONNECTION)"
      "fromConnectionString k (env_get env AZURE_STORAGE_CONNECTION) = Inr sc"
      "createIfNotExists k (getContainerClient k sc CONTAINER_NAME) \<lparr>access = ''blob''\<rparr> (service s) = (Inl e, w1)"
  | (UploadFailure) sc w1 e w2 where "truthy buffer" "truthy fileName"
      "truthy (env_get env AZURE_STORAGE_CONNECTION)"
      "fromConnectionString k (env_get env AZURE_STORAGE_CONNECTION) = Inr sc"
      "createIfNotExists k (getContainerClient k sc CONTAINER_NAME) \<lparr>access = ''blob''\<rparr> (service s) = (Inr (), w1)"
      "uploadData k (getBlockBlobClient k (getContainerClient k sc CONTAINER_NAME) fileName) buffer w1 = (Inl e, w2)"
  | (Success) sc w1 w2 where "truthy buffer" "truthy fileName"
      "truthy (env_get env AZURE_STORAGE_CONNECTION)"
      "fromConnectionString k (env_get env AZURE_STORAGE_CONNECTION) = Inr sc"
      "createIfNotExists k (getContainerClient k sc CONTAINER_NAME) \<lparr>access = ''blob''\<rparr> (service s) = (Inr (), w1)"
      "uploadData k (getBlockBlobClient k (getContainerClient k sc CONTAINER_NAME) fileName) buffer w1 = (Inr (), w2)"
proof (cases "\<not> truthy buffer \<or> \<not> truthy fileName")
  case True
  then show ?thesis by (rule MissingArgument)
next
  case args: False
  show ?thesis
  proof (cases "truthy (env_get env AZURE_STORAGE_CONNECTION)")
    case False
    with args show ?thesis by (auto intro: MissingConnection)
  next
    case conn: True
    show ?thesis
    proof (cases "fromConnectionString k (env_get env AZURE_STORAGE_CONNECTION)")
      case (Inl e)
      with args conn show ?thesis by (auto intro: ClientFailure)
    next
      case (Inr sc)
      obtain r1 w1 where c: "createIfNotExists k (getContainerClient k sc CONTAINER_NAME)
          \<lparr>access = ''blob''\<rparr> (service s) = (r1, w1)"
        by (cases "createIfNotExists k (getContainerClient k sc CONTAINER_NAME)
          \<lparr>access = ''blob''\<rparr> (service s)")
      show ?thesis
      proof (cases r1)
        case (Inl e)
        with args conn Inr c show ?thesis by (auto intro: CreateFailure)
      next
        case created: (Inr u)
        obtain r2 w2 where u: "uploadData k
            (getBlockBlobClient k (getContainerClient k sc CONTAINER_NAME) fileName) buffer w1 = (r2, w2)"
          by (cases "uploadData k
            (getBlockBlobClient k (getContainerClient k sc CONTAINER_NAME) fileName) buffer w1")
        show ?thesis
        proof (cases r2)
          case (Inl e)
          with args conn Inr c created u show ?thesis by (auto intro: UploadFailure)
        next
          case (Inr u')
          with args conn \<open>fromConnectionString k (env_get env AZURE_STORAGE_CONNECTION) = Inr sc\<close>
            c created u show ?thesis by (auto intro: Success)
        qed
      qed
    qed
  qed
qed

text \<open>A call that returns a URL can only be the last of the six runs.\<close>

lemma success_only:
  assumes "uploadToAzure k env buffer fileName s = (Inr u, s')"
  obtains sc w1 where
    "truthy buffer" "truthy fileName" "truthy (env_get env AZURE_STORAGE_CONNECTION)"
    "fromConnectionString k (env_get env AZURE_STORAGE_CONNECTION) = Inr sc"
    "createIfNotExists k (getContainerClient k sc CONTAINER_NAME) \<lparr>access = ''blob''\<rparr> (service s) = (Inr (), w1)"
    "uploadData k (getBlockBlobClient k (getContainerClient k sc CONTAINER_NAME) fileName) buffer w1 = (Inr (), service s')"
    "u = url k (getBlockBlobClient k (getContainerClient k sc CONTAINER_NAME) fileName)"
proof (cases rule: run_cases [where k = k and env = env and buffer = buffer and fileName = fileName and s = s])
  case MissingArgument
  with assms show ?thesis by (simp add: run_missing_argument)
next
  case MissingConnection
  with assms show ?thesis by (simp add: run_missing_connection)
next
  case (ClientFailure e)
  with assms show ?thesis by (simp add: run_client_failure)
next
  case (CreateFailure sc e w1)
  with assms show ?thesis by (simp add: run_create_failure)
next
  case (UploadFailure sc w1 e w2)
  with assms show ?thesis by (simp add: run_upload_failure)
next
  case (Success sc w1 w2)
  from run_success [OF Success] assms
  have "u = url k (getBlockBlobClient k (getContainerClient k sc CONTAINER_NAME) fileName)"
    and "service s' = w2"
    by auto
  with Success that show ?thesis by blast
qed

text \<open>Counting and listing the operations of a trace, event by event.\<close>

lemma attempts_simps [simp]:
  "attempts p [] = 0"
  "attempts p (EnvRead n # evs) = attempts p evs"
  "attempts p (FromConnectionString cs # evs) = (if p = OpFromConnectionString then 1 else 0) + attempts p evs"
  "attempts p (GetContainerClient sc n # evs) = (if p = OpGetContainerClient then 1 else 0) + attempts p evs"
  "attempts p (CreateIfNotExists cc opts # evs) = (if p = OpCreateIfNotExists then 1 else 0) + attempts p evs"
  "attempts p (GetBlockBlobClient cc v # evs) = (if p = OpGetBlockBlobClient then 1 else 0) + attempts p evs"
  "attempts p (UploadData bc d # evs) = (if p = OpUploadData then 1 else 0) + attempts p evs"
  by (auto simp: attempts_def ops_def)

lemma ops_simps [simp]:
  "ops [] = []"
  "ops (EnvRead n # evs) = ops evs"
  "ops (FromConnectionString cs # evs) = OpFromConnectionString # ops evs"
  "ops (GetContainerClient sc n # evs) = OpGetContainerClient # ops evs"
  "ops (CreateIfNotExists cc opts # evs) = OpCreateIfNotExists # ops evs"
  "ops (GetBlockBlobClient cc v # evs) = OpGetBlockBlobClient # ops evs"
  "ops (UploadData bc d # evs) = OpUploadData # ops evs"
  by (simp_all add: ops_def)

section \<open>Running the in-memory service\<close>

lemma mem_sdk_simps [simp]:
  "fromConnectionString (mem_sdk ce ue) (JStr a) = Inr a"
  "getContainerClient (mem_sdk ce ue) sc name = (sc, name)"
  "getBlockBlobClient (mem_sdk ce ue) cc n = (cc, n)"
  "url (mem_sdk ce ue) = mem_url"
  "createIfNotExists (mem_sdk (Some e) ue) cc opts w = (Inl e, w)"
  "createIfNotExists (mem_sdk None ue) cc opts w =
     (Inr (), (if snd cc \<in> set (fst w) then fst w else snd cc # fst w, snd w))"
  "uploadData (mem_sdk ce (Some e)) bc d w = (Inl e, w)"
  "uploadData (mem_sdk ce None) bc d w = (Inr (), (fst w, (snd w)(mem_url bc \<mapsto> d)))"
  by (simp_all add: mem_sdk_def)

lemma mem_env_connection [simp]: "env_get mem_env AZURE_STORAGE_CONNECTION = JStr ''acct''"
  by (simp add: env_get_def mem_env_def)

lemma mem_start_simps [simp]: "trace mem_start = []" "service mem_start = ([], Map.empty)"
  by (simp_all add: mem_start_def)

lemma mem_success:
  "truthy buffer \<Longrightarrow> truthy fileName \<Longrightarrow>
   uploadToAzure (mem_sdk None None) mem_env buffer fileName s =
     (Inr (mem_url ((''acct'', CONTAINER_NAME), fileName)),
      s\<lparr>trace := trace s @ [EnvRead AZURE_STORAGE_CONNECTION, EnvRead AZURE_STORAGE_CONNECTION,
            FromConnectionString (JStr ''acct''),
            GetContainerClient ''acct'' CONTAINER_NAME,
            CreateIfNotExists (''acct'', CONTAINER_NAME) \<lparr>access = ''blob''\<rparr>,
            GetBlockBlobClient (''acct'', CONTAINER_NAME) fileName,
            UploadData ((''acct'', CONTAINER_NAME), fileName) buffer],
         service := (if CONTAINER_NAME \<in> set (fst (service s)) then fst (service s)
                       else CONTAINER_NAME # fst (service s),
                     (snd (service s))(mem_url ((''acct'', CONTAINER_NAME), fileName) \<mapsto> buffer))\<rparr>)"
  by (simp add: uploadToAzure_def call_defs)

text \<open>The in-memory service meets the contract of the storage service.\<close>

lemma mem_sdk_always_succeeds: "always_succeeds (mem_sdk None None)"
  by (simp add: always_succeeds_def)

lemma mem_sdk_url_names_container_and_blob: "url_names_container_and_blob (mem_sdk ce ue)"
proof -
  have "sublist c (''https://'' @ a @ ''/'' @ c @ ''/'' @ n)" for a c n :: string
    by (metis append.assoc sublist_appendI)
  moreover have "sublist n (''https://'' @ a @ ''/'' @ c @ ''/'' @ n)" for a c n :: string
    by (metis append.assoc append_Nil2 sublist_appendI)
  ultimately show ?thesis
    by (simp add: url_names_container_and_blob_def del: append.simps)
qed

lemma mem_sdk_overwrites: "overwrites (mem_sdk ce ue) mem_retrieve"
  by (cases ue) (auto simp: overwrites_def mem_retrieve_def)

text \<open>
  A zero-length \<open>Buffer\<close> is an object, hence truthy: the argument check lets it through
  and it is uploaded like any other.
\<close>

lemma zero_length_buffer_passes_argument_check:
  "truthy (JBuffer [])"
  "\<exists>u s'. uploadToAzure (mem_sdk None None) mem_env (JBuffer []) (JStr ''a.png'') mem_start = (Inr u, s')"
  by (simp_all add: mem_success)

section \<open>Precondition failures\<close>

text \<open>
  C1. When \<open>buffer\<close> or \<open>fileName\<close> is falsy (undefined, null, the empty string, ...),
  the call is rejected and the world is left exactly as it was: nothing is appended to
  the trace and the service state is untouched, so no service client was created, no
  container creation and no upload was attempted. (A zero-length \<open>Buffer\<close> is an object
  and therefore truthy; the hypothesis is falsiness, as the check in the code is.)
\<close>

theorem missing_argument_fails_before_any_sdk_call:
  assumes "\<not> truthy buffer \<or> \<not> truthy fileName"
  shows "\<exists>t. uploadToAzure k env buffer fileName s = (Inl t, s)"
  using assms by (simp add: run_missing_argument)

theorem missing_argument_fails_before_any_sdk_call_witness:
  "(\<exists>t. uploadToAzure (mem_sdk None None) mem_env JUndefined (JStr ''a.png'') mem_start = (Inl t, mem_start))
   \<and> (\<exists>t. uploadToAzure (mem_sdk None None) mem_env (JBuffer [1, 2]) (JStr []) mem_start = (Inl t, mem_start))"
  using missing_argument_fails_before_any_sdk_call
      [where buffer = JUndefined and fileName = "JStr ''a.png''" and k = "mem_sdk None None"
         and env = mem_env and s = mem_start]
    missing_argument_fails_before_any_sdk_call
      [where buffer = "JBuffer [1, 2]" and fileName = "JStr []" and k = "mem_sdk None None"
         and env = mem_env and s = mem_start]
  by simp

text \<open>
  C2. When \<open>buffer\<close> and \<open>fileName\<close> are truthy and the environment variable
  \<open>AZURE_STORAGE_CONNECTION\<close> is absent or empty, the call is rejected; the only thing it
  has done is read the environment: no SDK operation was attempted and the service state
  is unchanged.
\<close>

theorem missing_connection_string_fails_before_any_sdk_call:
  assumes "truthy buffer" and "truthy fileName"
    and "\<not> truthy (env_get env AZURE_STORAGE_CONNECTION)"
  shows "\<exists>t s'. uploadToAzure k env buffer fileName s = (Inl t, s') \<and>
           service s' = service s \<and>
           new_events s s' = [EnvRead AZURE_STORAGE_CONNECTION] \<and>
           ops (new_events s s') = []"
  using assms by (simp add: run_missing_connection ops_def)

theorem missing_connection_string_fails_before_any_sdk_call_witness:
  "\<exists>t s'. uploadToAzure (mem_sdk None None) Map.empty (JBuffer [1, 2]) (JStr ''a.png'') mem_start = (Inl t, s') \<and>
           service s' = service mem_start \<and>
           new_events mem_start s' = [EnvRead AZURE_STORAGE_CONNECTION] \<and>
           ops (new_events mem_start s') = []"
  using missing_connection_string_fails_before_any_sdk_call
      [where buffer = "JBuffer [1, 2]" and fileName = "JStr ''a.png''" and k = "mem_sdk None None"
         and env = Map.empty and s = mem_start]
  by (simp add: env_get_def)

text \<open>
  C3. The claim is that a precondition violation throws an error carrying the message
  "Buffer and Filename are required", respectively "Connection string is required".
  Both \<open>throw\<close> statements construct the value with \<open>new error(...)\<close>, and no \<open>error\<close>
  is in scope (the constructor is \<open>Error\<close>): what is thrown in both cases is the
  \<open>ReferenceError\<close> "error is not defined", raised at line 7, respectively line 10, and
  the descriptive message is lost.
\<close>

theorem precondition_throws_carry_reference_error_message:
  "(\<not> truthy buffer \<or> \<not> truthy fileName \<longrightarrow>
      fst (uploadToAzure k env buffer fileName s) = Inl (ReferenceError ''error is not defined'' 7)) \<and>
   (truthy buffer \<and> truthy fileName \<and> \<not> truthy (env_get env AZURE_STORAGE_CONNECTION) \<longrightarrow>
      fst (uploadToAzure k env buffer fileName s) = Inl (ReferenceError ''error is not defined'' 10))"
  by (simp add: run_missing_argument run_missing_connection throw_new_error)

theorem precondition_throws_carry_reference_error_message_witness:
  "(\<exists>t. fst (uploadToAzure (mem_sdk None None) mem_env JUndefined (JStr ''a.png'') mem_start) = Inl t \<and>
      message t = Some ''error is not defined'' \<and> message t \<noteq> Some ''Buffer and Filename are required'') \<and>
   (\<exists>t. fst (uploadToAzure (mem_sdk None None) Map.empty (JBuffer [1, 2]) (JStr ''a.png'') mem_start) = Inl t \<and>
      message t = Some ''error is not defined'' \<and> message t \<noteq> Some ''Connection string is required'')"
  using precondition_throws_carry_reference_error_message
      [where buffer = JUndefined and fileName = "JStr ''a.png''" and k = "mem_sdk None None"
         and env = mem_env and s = mem_start]
    precondition_throws_carry_reference_error_message
      [where buffer = "JBuffer [1, 2]" and fileName = "JStr ''a.png''" and k = "mem_sdk None None"
         and env = Map.empty and s = mem_start]
  by (simp add: env_get_def)

text \<open>
  C9. The argument check comes first: when an argument is falsy and the connection string
  is missing as well, the value thrown is the one of the argument check (the \<open>throw\<close> on
  line 7, not the one on line 10), and the invocation adds nothing to the trace, so the
  environment was not read.
\<close>

theorem argument_check_precedes_connection_check:
  assumes "\<not> truthy buffer \<or> \<not> truthy fileName"
    and "\<not> truthy (env_get env AZURE_STORAGE_CONNECTION)"
  shows "\<exists>t s'. uploadToAzure k env buffer fileName s = (Inl t, s') \<and>
           t = throw_new ''error'' ''Buffer and Filename are required'' 7 \<and>
           thrown_at t = Some 7 \<and>
           new_events s s' = []"
  using assms by (simp add: run_missing_argument throw_new_error)

theorem argument_check_precedes_connection_check_witness:
  "\<exists>t s'. uploadToAzure (mem_sdk None None) Map.empty JUndefined (JStr ''a.png'') mem_start = (Inl t, s') \<and>
           t = throw_new ''error'' ''Buffer and Filename are required'' 7 \<and>
           thrown_at t = Some 7 \<and>
           new_events mem_start s' = []"
  using argument_check_precedes_connection_check
      [where buffer = JUndefined and fileName = "JStr ''a.png''" and k = "mem_sdk None None"
         and env = Map.empty and s = mem_start]
  by (simp add: env_get_def)

section \<open>The successful run\<close>

text \<open>
  C4. Whenever a call returns a URL, it has, before uploading, called
  \<open>createIfNotExists\<close> with \<open>{access: "blob"}\<close> on the container client of the container
  named "snapmap-blob", and that call succeeded; the upload then ran on the service state
  the container call left behind. The container name is the literal of the module whatever
  the buffer, the file name and the environment are. The trace of the invocation is
  exactly the seven events listed.
\<close>

theorem successful_call_ensures_fixed_container_before_upload:
  assumes "uploadToAzure k env buffer fileName s = (Inr u, s')"
  shows "\<exists>sc w1.
           fromConnectionString k (env_get env AZURE_STORAGE_CONNECTION) = Inr sc \<and>
           createIfNotExists k (getContainerClient k sc ''snapmap-blob'') \<lparr>access = ''blob''\<rparr> (service s)
             = (Inr (), w1) \<and>
           uploadData k (getBlockBlobClient k (getContainerClient k sc ''snapmap-blob'') fileName) buffer w1
             = (Inr (), service s') \<and>
           new_events s s' =
             [EnvRead AZURE_STORAGE_CONNECTION, EnvRead AZURE_STORAGE_CONNECTION,
              FromConnectionString (env_get env AZURE_STORAGE_CONNECTION),
              GetContainerClient sc ''snapmap-blob'',
              CreateIfNotExists (getContainerClient k sc ''snapmap-blob'') \<lparr>access = ''blob''\<rparr>,
              GetBlockBlobClient (getContainerClient k sc ''snapmap-blob'') fileName,
              UploadData (getBlockBlobClient k (getContainerClient k sc ''snapmap-blob'') fileName) buffer]"
proof (cases rule: run_cases [where k = k and env = env and buffer = buffer and fileName = fileName and s = s])
  case MissingArgument
  with assms show ?thesis by (simp add: run_missing_argument)
next
  case MissingConnection
  with assms show ?thesis by (simp add: run_missing_connection)
next
  case (ClientFailure e)
  with assms show ?thesis by (simp add: run_client_failure)
next
  case (CreateFailure sc e w1)
  with assms show ?thesis by (simp add: run_create_failure)
next
  case (UploadFailure sc w1 e w2)
  with assms show ?thesis by (simp add: run_upload_failure)
next
  case (Success sc w1 w2)
  from run_success [OF Success] assms
  have "s' = s\<lparr>trace := trace s @ [EnvRead AZURE_STORAGE_CONNECTION, EnvRead AZURE_STORAGE_CONNECTION,
            FromConnectionString (env_get env AZURE_STORAGE_CONNECTION),
            GetContainerClient sc CONTAINER_NAME,
            CreateIfNotExists (getContainerClient k sc CONTAINER_NAME) \<lparr>access = ''blob''\<rparr>,
            GetBlockBlobClient (getContainerClient k sc CONTAINER_NAME) fileName,
            UploadData (getBlockBlobClient k (getContainerClient k sc CONTAINER_NAME) fileName) buffer],
         service := w2\<rparr>"
    by simp
  with Success show ?thesis
    by (simp add: CONTAINER_NAME_def)
qed

theorem successful_call_ensures_fixed_container_before_upload_witness:
  "\<exists>sc w1.
     fromConnectionString (mem_sdk None None) (env_get mem_env AZURE_STORAGE_CONNECTION) = Inr sc \<and>
     createIfNotExists (mem_sdk None None) (getContainerClient (mem_sdk None None) sc ''snapmap-blob'')
       \<lparr>access = ''blob''\<rparr> (service mem_start) = (Inr (), w1) \<and>
     new_events mem_start (snd (uploadToAzure (mem_sdk None None) mem_env (JBuffer [1, 2]) (JStr ''a.png'') mem_start)) =
       [EnvRead AZURE_STORAGE_CONNECTION, EnvRead AZURE_STORAGE_CONNECTION,
        FromConnectionString (env_get mem_env AZURE_STORAGE_CONNECTION),
        GetContainerClient sc ''snapmap-blob'',
        CreateIfNotExists (getContainerClient (mem_sdk None None) sc ''snapmap-blob'') \<lparr>access = ''blob''\<rparr>,
        GetBlockBlobClient (getContainerClient (mem_sdk None None) sc ''snapmap-blob'') (JStr ''a.png''),
        UploadData (getBlockBlobClient (mem_sdk None None) (getContainerClient (mem_sdk None None) sc ''snapmap-blob'') (JStr ''a.png'')) (JBuffer [1, 2])]"
proof -
  obtain u s' where run: "uploadToAzure (mem_sdk None None) mem_env (JBuffer [1, 2]) (JStr ''a.png'') mem_start = (Inr u, s')"
    by (simp add: mem_success)
  from successful_call_ensures_fixed_container_before_upload [OF run] run
  show ?thesis by auto
qed

text \<open>
  C5. With a truthy buffer, a non-empty file name, a non-empty connection string in the
  environment that the SDK accepts, and a storage service whose calls succeed, the call
  returns, having performed all five SDK operations. What it returns is the \<open>url\<close> of
  the block blob client the SDK built for the container "snapmap-blob" and the file name
  as supplied; that URL is not empty and contains both the container name and the file
  name. How a blob URL is laid out is the SDK's business, taken from the specification
  (\<open>url_names_container_and_blob\<close>); the function contributes the fixed container name
  and the file name, which it hands over unchanged.
\<close>

theorem successful_upload_returns_url_naming_container_and_file:
  assumes "truthy buffer" and "name \<noteq> []"
    and "env AZURE_STORAGE_CONNECTION = Some cs" and "cs \<noteq> []"
    and "fromConnectionString k (JStr cs) = Inr sc"
    and "always_succeeds k" and "url_names_container_and_blob k"
  shows "\<exists>u s'. uploadToAzure k env buffer (JStr name) s = (Inr u, s') \<and>
           u = url k (getBlockBlobClient k (getContainerClient k sc ''snapmap-blob'') (JStr name)) \<and>
           ops (new_events s s') = sdk_order \<and>
           u \<noteq> [] \<and> sublist ''snapmap-blob'' u \<and> sublist name u"
proof -
  have conn: "env_get env AZURE_STORAGE_CONNECTION = JStr cs"
    using assms(3) by (simp add: env_get_def)
  let ?cc = "getContainerClient k sc CONTAINER_NAME"
  let ?bc = "getBlockBlobClient k ?cc (JStr name)"
  obtain w1 where c: "createIfNotExists k ?cc \<lparr>access = ''blob''\<rparr> (service s) = (Inr (), w1)"
    using assms(6) unfolding always_succeeds_def by (metis prod.collapse)
  obtain w2 where u: "uploadData k ?bc buffer w1 = (Inr (), w2)"
    using assms(6) unfolding always_succeeds_def by (metis prod.collapse)
  have sc: "fromConnectionString k (env_get env AZURE_STORAGE_CONNECTION) = Inr sc"
    using assms(5) conn by simp
  have args: "truthy buffer" "truthy (JStr name)" "truthy (env_get env AZURE_STORAGE_CONNECTION)"
    using assms(1,2,4) conn by simp_all
  note run = run_success [OF args sc c u]
  have "ops (new_events s (snd (uploadToAzure k env buffer (JStr name) s))) = sdk_order"
    unfolding run by (simp add: sdk_order_def)
  moreover have "fst (uploadToAzure k env buffer (JStr name) s) = Inr (url k ?bc)"
    unfolding run by simp
  moreover have "url k ?bc \<noteq> [] \<and> sublist ''snapmap-blob'' (url k ?bc) \<and> sublist name (url k ?bc)"
    using assms(7) unfolding url_names_container_and_blob_def CONTAINER_NAME_def by blast
  ultimately show ?thesis
    unfolding CONTAINER_NAME_def by (metis prod.collapse)
qed

theorem successful_upload_returns_url_naming_container_and_file_witness:
  "\<exists>u s'. uploadToAzure (mem_sdk None None) mem_env (JBuffer [1, 2]) (JStr ''a.png'') mem_start = (Inr u, s') \<and>
           u = ''https://acct/snapmap-blob/a.png'' \<and>
           ops (new_events mem_start s') = sdk_order \<and>
           u \<noteq> [] \<and> sublist ''snapmap-blob'' u \<and> sublist ''a.png'' u"
  using successful_upload_returns_url_naming_container_and_file
      [where buffer = "JBuffer [1, 2]" and name = "''a.png''" and env = mem_env and cs = "''acct''"
         and sc = "''acct''" and k = "mem_sdk None None" and s = mem_start,
       OF _ _ _ _ _ mem_sdk_always_succeeds mem_sdk_url_names_container_and_blob]
  by (simp add: mem_env_def)

text \<open>
  C10. The returned URL is the \<open>url\<close> of the block blob client built from the
  connection string of the environment, the container name "snapmap-blob" and the file
  name; the buffer plays no part. Two successful calls with the same file name under the
  same environment return equal URLs, whatever the two buffers and the two states of the
  service are.
\<close>

theorem url_does_not_depend_on_buffer:
  assumes "uploadToAzure k env b1 fileName s1 = (Inr u1, s1')"
    and "uploadToAzure k env b2 fileName s2 = (Inr u2, s2')"
  shows "u1 = u2 \<and>
         (\<exists>sc. fromConnectionString k (env_get env AZURE_STORAGE_CONNECTION) = Inr sc \<and>
            u1 = url k (getBlockBlobClient k (getContainerClient k sc ''snapmap-blob'') fileName))"
proof -
  from assms(1) obtain sc where
    sc: "fromConnectionString k (env_get env AZURE_STORAGE_CONNECTION) = Inr sc"
    and u1: "u1 = url k (getBlockBlobClient k (getContainerClient k sc CONTAINER_NAME) fileName)"
    by (rule success_only)
  from assms(2) obtain sc' where
    sc': "fromConnectionString k (env_get env AZURE_STORAGE_CONNECTION) = Inr sc'"
    and u2: "u2 = url k (getBlockBlobClient k (getContainerClient k sc' CONTAINER_NAME) fileName)"
    by (rule success_only)
  from sc sc' have "sc' = sc" by simp
  with u1 u2 have "u1 = u2" by simp
  with sc u1 show ?thesis by (auto simp: CONTAINER_NAME_def)
qed

theorem url_does_not_depend_on_buffer_witness:
  "\<exists>u1 s1 u2 s2.
     uploadToAzure (mem_sdk None None) mem_env (JBuffer [1, 2]) (JStr ''a.png'') mem_start = (Inr u1, s1) \<and>
     uploadToAzure (mem_sdk None None) mem_env (JStr ''other content'') (JStr ''a.png'') mem_start = (Inr u2, s2) \<and>
     u1 = u2"
proof -
  obtain u1 s1 where r1: "uploadToAzure (mem_sdk None None) mem_env (JBuffer [1, 2]) (JStr ''a.png'') mem_start = (Inr u1, s1)"
    by (simp add: mem_success)
  obtain u2 s2 where r2: "uploadToAzure (mem_sdk None None) mem_env (JStr ''other content'') (JStr ''a.png'') mem_start = (Inr u2, s2)"
    by (simp add: mem_success)
  from url_does_not_depend_on_buffer [OF r1 r2] r1 r2
  show ?thesis by blast
qed

text \<open>
  C6. Two uploads in a row under the same file name, with different buffers, both
  succeeding: the second call returns the URL the first one returned, and what the
  service then serves at that URL is the second buffer. That an upload replaces the
  content served at the blob's URL is the SDK's default behaviour, taken from the
  specification (\<open>overwrites\<close>).
\<close>

theorem second_upload_overwrites_at_same_url:
  assumes "overwrites k retrieve" and "b1 \<noteq> b2"
    and "uploadToAzure k env b1 fileName s0 = (Inr u1, s1)"
    and "uploadToAzure k env b2 fileName s1 = (Inr u2, s2)"
  shows "u2 = u1 \<and> retrieve u1 (service s2) = Some b2"
proof -
  from assms(3) obtain sc where
    sc: "fromConnectionString k (env_get env AZURE_STORAGE_CONNECTION) = Inr sc"
    and u1: "u1 = url k (getBlockBlobClient k (getContainerClient k sc CONTAINER_NAME) fileName)"
    by (rule success_only)
  from assms(4) obtain sc' w1 where
    sc': "fromConnectionString k (env_get env AZURE_STORAGE_CONNECTION) = Inr sc'"
    and up: "uploadData k (getBlockBlobClient k (getContainerClient k sc' CONTAINER_NAME) fileName) b2 w1
               = (Inr (), service s2)"
    and u2: "u2 = url k (getBlockBlobClient k (getContainerClient k sc' CONTAINER_NAME) fileName)"
    by (rule success_only)
  from sc sc' have "sc' = sc" by simp
  with u1 u2 have same: "u2 = u1" by simp
  from assms(1) up have "retrieve u2 (service s2) = Some b2"
    unfolding overwrites_def u2 by blast
  with same show ?thesis by simp
qed

theorem second_upload_overwrites_at_same_url_witness:
  "\<exists>u1 s1 u2 s2.
     uploadToAzure (mem_sdk None None) mem_env (JBuffer [1, 2]) (JStr ''a.png'') mem_start = (Inr u1, s1) \<and>
     uploadToAzure (mem_sdk None None) mem_env (JBuffer [3]) (JStr ''a.png'') s1 = (Inr u2, s2) \<and>
     u2 = u1 \<and> mem_retrieve u1 (service s2) = Some (JBuffer [3])"
proof -
  obtain u1 s1 where r1: "uploadToAzure (mem_sdk None None) mem_env (JBuffer [1, 2]) (JStr ''a.png'') mem_start = (Inr u1, s1)"
    by (simp add: mem_success)
  obtain u2 s2 where r2: "uploadToAzure (mem_sdk None None) mem_env (JBuffer [3]) (JStr ''a.png'') s1 = (Inr u2, s2)"
    by (simp add: mem_success)
  have "JBuffer [1, 2] \<noteq> JBuffer [3]" by simp
  from second_upload_overwrites_at_same_url [OF mem_sdk_overwrites this r1 r2] r1 r2
  show ?thesis by blast
qed

section \<open>Failures of the storage service and the order of calls\<close>

text \<open>
  C7. A failure of the container-creation call or of the upload call reaches the caller
  as the very value the SDK produced, and nothing is retried. In every invocation no SDK
  operation is attempted more than once; in an invocation that returns, each of the five
  is attempted exactly once. When \<open>createIfNotExists\<close> fails with \<open>e\<close>, the call is rejected
  with \<open>e\<close>, the service is left as the failed call left it, the container call was
  attempted once and the upload not at all. When \<open>uploadData\<close> fails with \<open>e\<close>, the call
  is rejected with \<open>e\<close>, and both network calls were attempted once.
\<close>

theorem sdk_failure_propagates_unchanged_single_attempt:
  "(\<forall>p. attempts p (new_events s (snd (uploadToAzure k env buffer fileName s))) \<le> 1) \<and>
   ((\<exists>u. fst (uploadToAzure k env buffer fileName s) = Inr u) \<longrightarrow>
      (\<forall>p. attempts p (new_events s (snd (uploadToAzure k env buffer fileName s))) = 1)) \<and>
   (truthy buffer \<and> truthy fileName \<and> truthy (env_get env AZURE_STORAGE_CONNECTION) \<and>
    fromConnectionString k (env_get env AZURE_STORAGE_CONNECTION) = Inr sc \<and>
    createIfNotExists k (getContainerClient k sc CONTAINER_NAME) \<lparr>access = ''blob''\<rparr> (service s) = (Inl e, w1) \<longrightarrow>
      fst (uploadToAzure k env buffer fileName s) = Inl (FromSdk e) \<and>
      service (snd (uploadToAzure k env buffer fileName s)) = w1 \<and>
      attempts OpCreateIfNotExists (new_events s (snd (uploadToAzure k env buffer fileName s))) = 1 \<and>
      attempts OpUploadData (new_events s (snd (uploadToAzure k env buffer fileName s))) = 0) \<and>
   (truthy buffer \<and> truthy fileName \<and> truthy (env_get env AZURE_STORAGE_CONNECTION) \<and>
    fromConnectionString k (env_get env AZURE_STORAGE_CONNECTION) = Inr sc \<and>
    createIfNotExists k (getContainerClient k sc CONTAINER_NAME) \<lparr>access = ''blob''\<rparr> (service s) = (Inr (), w1) \<and>
    uploadData k (getBlockBlobClient k (getContainerClient k sc CONTAINER_NAME) fileName) buffer w1 = (Inl e, w2) \<longrightarrow>
      fst (uploadToAzure k env buffer fileName s) = Inl (FromSdk e) \<and>
      service (snd (uploadToAzure k env buffer fileName s)) = w2 \<and>
      attempts OpCreateIfNotExists (new_events s (snd (uploadToAzure k env buffer fileName s))) = 1 \<and>
      attempts OpUploadData (new_events s (snd (uploadToAzure k env buffer fileName s))) = 1)"
  (is "?once \<and> ?all \<and> ?create \<and> ?upload")
proof (intro conjI)
  show ?once
  proof (cases rule: run_cases [where k = k and env = env and buffer = buffer and fileName = fileName and s = s])
    case MissingArgument
    then show ?thesis by (simp add: run_missing_argument)
  next
    case MissingConnection
    then show ?thesis by (simp add: run_missing_connection)
  next
    case (ClientFailure e)
    then show ?thesis by (simp add: run_client_failure)
  next
    case (CreateFailure sc e w1)
    then show ?thesis by (simp add: run_create_failure)
  next
    case (UploadFailure sc w1 e w2)
    then show ?thesis by (simp add: run_upload_failure)
  next
    case (Success sc w1 w2)
    then show ?thesis by (simp add: run_success)
  qed
  show ?all
  proof (cases rule: run_cases [where k = k and env = env and buffer = buffer and fileName = fileName and s = s])
    case MissingArgument
    then show ?thesis by (simp add: run_missing_argument)
  next
    case MissingConnection
    then show ?thesis by (simp add: run_missing_connection)
  next
    case (ClientFailure e)
    then show ?thesis by (simp add: run_client_failure)
  next
    case (CreateFailure sc e w1)
    then show ?thesis by (simp add: run_create_failure)
  next
    case (UploadFailure sc w1 e w2)
    then show ?thesis by (simp add: run_upload_failure)
  next
    case (Success sc w1 w2)
    have "attempts p [EnvRead AZURE_STORAGE_CONNECTION, EnvRead AZURE_STORAGE_CONNECTION,
            FromConnectionString (env_get env AZURE_STORAGE_CONNECTION),
            GetContainerClient sc CONTAINER_NAME,
            CreateIfNotExists (getContainerClient k sc CONTAINER_NAME) \<lparr>access = ''blob''\<rparr>,
            GetBlockBlobClient (getContainerClient k sc CONTAINER_NAME) fileName,
            UploadData (getBlockBlobClient k (getContainerClient k sc CONTAINER_NAME) fileName) buffer] = 1" for p
      by (cases p) simp_all
    with Success show ?thesis by (simp add: run_success)
  qed
  show ?create
    by (auto simp: run_create_failure)
  show ?upload
    by (auto simp: run_upload_failure)
qed

theorem sdk_failure_propagates_unchanged_single_attempt_witness:
  "fst (uploadToAzure (mem_sdk (Some ''503 Server Busy'') None) mem_env (JBuffer [1, 2]) (JStr ''a.png'') mem_start)
     = Inl (FromSdk ''503 Server Busy'') \<and>
   attempts OpCreateIfNotExists (new_events mem_start
     (snd (uploadToAzure (mem_sdk (Some ''503 Server Busy'') None) mem_env (JBuffer [1, 2]) (JStr ''a.png'') mem_start))) = 1 \<and>
   attempts OpUploadData (new_events mem_start
     (snd (uploadToAzure (mem_sdk (Some ''503 Server Busy'') None) mem_env (JBuffer [1, 2]) (JStr ''a.png'') mem_start))) = 0 \<and>
   fst (uploadToAzure (mem_sdk None (Some ''408 Timeout'')) mem_env (JBuffer [1, 2]) (JStr ''a.png'') mem_start)
     = Inl (FromSdk ''408 Timeout'') \<and>
   attempts OpUploadData (new_events mem_start
     (snd (uploadToAzure (mem_sdk None (Some ''408 Timeout'')) mem_env (JBuffer [1, 2]) (JStr ''a.png'') mem_start))) = 1"
  using sdk_failure_propagates_unchanged_single_attempt
      [where k = "mem_sdk (Some ''503 Server Busy'') None" and env = mem_env and buffer = "JBuffer [1, 2]"
         and fileName = "JStr ''a.png''" and s = mem_start and sc = "''acct''"
         and e = "''503 Server Busy''" and ?w1.0 = "([], Map.empty)"]
    sdk_failure_propagates_unchanged_single_attempt
      [where k = "mem_sdk None (Some ''408 Timeout'')" and env = mem_env and buffer = "JBuffer [1, 2]"
         and fileName = "JStr ''a.png''" and s = mem_start and sc = "''acct''"
         and e = "''408 Timeout''" and ?w1.0 = "([CONTAINER_NAME], Map.empty)"
         and ?w2.0 = "([CONTAINER_NAME], Map.empty)"]
  by simp

text \<open>
  C8. In every invocation the SDK operations performed are an initial segment of: create
  the service client, get the container client, ensure the container exists, get the
  block blob client, upload; an invocation that returns performs all five. An upload
  appears in the trace only if the container call has returned successfully, and it acts
  on the service state that call left.
\<close>

theorem sdk_operations_follow_fixed_order:
  "prefix (ops (new_events s (snd (uploadToAzure k env buffer fileName s)))) sdk_order \<and>
   ((\<exists>u. fst (uploadToAzure k env buffer fileName s) = Inr u) \<longrightarrow>
      ops (new_events s (snd (uploadToAzure k env buffer fileName s))) = sdk_order) \<and>
   (\<forall>bc d. UploadData bc d \<in> set (new_events s (snd (uploadToAzure k env buffer fileName s))) \<longrightarrow>
      (\<exists>sc w1. fromConnectionString k (env_get env AZURE_STORAGE_CONNECTION) = Inr sc \<and>
         createIfNotExists k (getContainerClient k sc CONTAINER_NAME) \<lparr>access = ''blob''\<rparr> (service s) = (Inr (), w1) \<and>
         service (snd (uploadToAzure k env buffer fileName s)) = snd (uploadData k bc d w1)))"
proof (cases rule: run_cases [where k = k and env = env and buffer = buffer and fileName = fileName and s = s])
  case MissingArgument
  then show ?thesis by (simp add: run_missing_argument sdk_order_def)
next
  case MissingConnection
  then show ?thesis by (simp add: run_missing_connection sdk_order_def)
next
  case (ClientFailure e)
  then show ?thesis by (simp add: run_client_failure sdk_order_def)
next
  case (CreateFailure sc e w1)
  then show ?thesis by (simp add: run_create_failure sdk_order_def)
next
  case (UploadFailure sc w1 e w2)
  then show ?thesis by (simp add: run_upload_failure sdk_order_def)
next
  case (Success sc w1 w2)
  then show ?thesis by (simp add: run_success sdk_order_def)
qed

theorem sdk_operations_follow_fixed_order_witness:
  "ops (new_events mem_start (snd (uploadToAzure (mem_sdk None None) mem_env (JBuffer [1, 2]) (JStr ''a.png'') mem_start)))
     = [OpFromConnectionString, OpGetContainerClient, OpCreateIfNotExists, OpGetBlockBlobClient, OpUploadData] \<and>
   prefix (ops (new_events mem_start
      (snd (uploadToAzure (mem_sdk (Some ''503 Server Busy'') None) mem_env (JBuffer [1, 2]) (JStr ''a.png'') mem_start))))
     [OpFromConnectionString, OpGetContainerClient, OpCreateIfNotExists, OpGetBlockBlobClient, OpUploadData]"
  using sdk_operations_follow_fixed_order
      [where k = "mem_sdk None None" and env = mem_env and buffer = "JBuffer [1, 2]"
         and fileName = "JStr ''a.png''" and s = mem_start]
    sdk_operations_follow_fixed_order
      [where k = "mem_sdk (Some ''503 Server Busy'') None" and env = mem_env and buffer = "JBuffer [1, 2]"
         and fileName = "JStr ''a.png''" and s = mem_start]
  by (simp add: mem_success sdk_order_def)

end
